theory Spec2Isabelle
  imports Main
begin

section \<open>Python values, exceptions and string helpers\<close>

text \<open>
  The client is Python 3 (\<^verbatim>\<open>pyhs/sockets.py\<close>, \<^verbatim>\<open>pyhs/utils.py\<close>,
  \<^verbatim>\<open>pyhs/exceptions.py\<close>). Strings are byte strings (\<open>char list\<close>), the absent
  value \<^verbatim>\<open>None\<close> is \<open>None\<close> of an option type, and every \<^verbatim>\<open>raise\<close> is the
  \<open>Inl\<close> branch of a sum, returned together with the state as the exception left it.

  \<open>ConnectionError\<close>, \<open>RecoverableConnectionError\<close> and \<open>OperationalError\<close> are the
  classes of \<^verbatim>\<open>exceptions.py\<close>; the first one shadows the builtin of the same name and
  derives from \<^verbatim>\<open>Exception\<close>, so it is no \<^verbatim>\<open>socket.error\<close>. \<open>ValueError\<close> is
  raised by the request builders and by \<^verbatim>\<open>int\<close>; the constructors without a message
  are exceptions that only the interpreter raises here, whose text is not modelled.
\<close>

type_synonym time = int

datatype pyval = PInt int | PStr string

datatype exc =
    ConnectionError string
  | RecoverableConnectionError string
  | OperationalError string
  | ValueError string
  | TypeError
  | IndexError
  | KeyError
  | AttributeError
  | RuntimeError

text \<open>\<^verbatim>\<open>except ConnectionError\<close> also catches the subclass.\<close>

fun is_ConnectionError :: "exc \<Rightarrow> bool" where
  "is_ConnectionError (ConnectionError _) = True"
| "is_ConnectionError (RecoverableConnectionError _) = True"
| "is_ConnectionError _ = False"

fun is_RecoverableConnectionError :: "exc \<Rightarrow> bool" where
  "is_RecoverableConnectionError (RecoverableConnectionError _) = True"
| "is_RecoverableConnectionError _ = False"

text \<open>\<^verbatim>\<open>exc.args[0]\<close> of an exception the client raised with one message.\<close>

fun message :: "exc \<Rightarrow> string" where
  "message (ConnectionError m) = m"
| "message (RecoverableConnectionError m) = m"
| "message (OperationalError m) = m"
| "message (ValueError m) = m"
| "message _ = []"

definition TAB :: char where
  "TAB = CHR 0x09"

definition LF :: char where
  "LF = CHR 0x0A"

definition QUOTE :: char where
  "QUOTE = CHR 0x22"

definition py_ord :: "char \<Rightarrow> nat" where
  "py_ord c = of_char c"

definition py_chr :: "nat \<Rightarrow> char" where
  "py_chr n = char_of n"

text \<open>\<^verbatim>\<open>str(n)\<close> and \<^verbatim>\<open>'%d' % n\<close> of an integer.\<close>

fun digits :: "nat \<Rightarrow> string" where
  "digits n = (if n < 10 then [py_chr (48 + n)] else digits (n div 10) @ [py_chr (48 + n mod 10)])"

declare digits.simps [simp del]

definition str_int :: "int \<Rightarrow> string" where
  "str_int i = (if i < 0 then CHR ''-'' # digits (nat (- i)) else digits (nat i))"

fun str_val :: "pyval \<Rightarrow> string" where
  "str_val (PInt i) = str_int i"
| "str_val (PStr s) = s"

fun truthy :: "pyval \<Rightarrow> bool" where
  "truthy (PInt i) = (i \<noteq> 0)"
| "truthy (PStr s) = (s \<noteq> [])"

text \<open>\<^verbatim>\<open>sep.join(tokens)\<close> and \<^verbatim>\<open>s.split(sep)\<close> for a one-character separator.\<close>

fun join :: "string \<Rightarrow> string list \<Rightarrow> string" where
  "join sep [] = []"
| "join sep [x] = x"
| "join sep (x # y # ys) = x @ sep @ join sep (y # ys)"

fun py_split :: "char \<Rightarrow> string \<Rightarrow> string list" where
  "py_split sep [] = [[]]"
| "py_split sep (c # cs) =
     (if c = sep then [] # py_split sep cs
      else (case py_split sep cs of
              [] \<Rightarrow> [[c]]
            | t # ts \<Rightarrow> (c # t) # ts))"

text \<open>
  \<^verbatim>\<open>int(s)\<close> on an ASCII string: surrounding whitespace is stripped, one sign is allowed,
  then decimal digits with single underscores between them. \<open>None\<close> is the
  \<^verbatim>\<open>ValueError\<close> of the interpreter.
\<close>

definition is_space :: "char \<Rightarrow> bool" where
  "is_space c = (py_ord c \<in> {9, 10, 11, 12, 13, 32})"

definition is_digit :: "char \<Rightarrow> bool" where
  "is_digit c = (48 \<le> py_ord c \<and> py_ord c \<le> 57)"

definition strip :: "string \<Rightarrow> string" where
  "strip s = rev (dropWhile is_space (rev (dropWhile is_space s)))"

fun int_digits :: "bool \<Rightarrow> nat \<Rightarrow> string \<Rightarrow> nat option" where
  "int_digits prev acc [] = (if prev then Some acc else None)"
| "int_digits prev acc (c # cs) =
     (if is_digit c then int_digits True (10 * acc + (py_ord c - 48)) cs
      else if c = CHR ''_'' \<and> prev then int_digits False acc cs
      else None)"

definition py_int :: "string \<Rightarrow> int option" where
  "py_int s =
     (case strip s of
        [] \<Rightarrow> None
      | c # cs \<Rightarrow>
          if c = CHR ''-'' then map_option (\<lambda>n. - int n) (int_digits False 0 cs)
          else if c = CHR ''+'' then map_option int (int_digits False 0 cs)
          else map_option int (int_digits False 0 (c # cs)))"

text \<open>
  A Python 3 dictionary keeps its keys in insertion order: an association list with
  distinct keys. \<open>dict_set\<close> is \<^verbatim>\<open>d[k] = v\<close>, \<open>dict_del\<close> is \<^verbatim>\<open>del d[k]\<close> for
  a key that is present, \<open>map_of\<close> is the lookup.
\<close>

fun dict_set :: "'k \<Rightarrow> 'v \<Rightarrow> ('k \<times> 'v) list \<Rightarrow> ('k \<times> 'v) list" where
  "dict_set k v [] = [(k, v)]"
| "dict_set k v (e # d) = (if fst e = k then (k, v) # d else e # dict_set k v d)"

definition dict_del :: "'k \<Rightarrow> ('k \<times> 'v) list \<Rightarrow> ('k \<times> 'v) list" where
  "dict_del k d = filter (\<lambda>e. fst e \<noteq> k) d"

section \<open>The wire codec (\<^verbatim>\<open>utils.encode\<close>, \<^verbatim>\<open>utils.decode\<close>)\<close>

fun encode_str :: "string \<Rightarrow> string" where
  "encode_str [] = []"
| "encode_str (c # cs) =
     (if py_ord c \<le> 0x0f then [CHR 0x01, py_chr (or (py_ord c) 0x40)] else [c]) @ encode_str cs"

fun encode :: "string option \<Rightarrow> string" where
  "encode None = [CHR 0x00]"
| "encode (Some v) = encode_str v"

fun decode_str :: "string \<Rightarrow> string" where
  "decode_str [] = []"
| "decode_str (c # cs) =
     (if c = CHR 0x01 then
        (case cs of
           [] \<Rightarrow> [c]
         | next_char # rest \<Rightarrow>
             (if 0x40 \<le> py_ord next_char \<and> py_ord next_char \<le> 0x4f
              then py_chr (xor (py_ord next_char) 0x40) # decode_str rest
              else c # next_char # decode_str rest))
      else c # decode_str cs)"

definition decode :: "string \<Rightarrow> string option" where
  "decode v = (if v = [CHR 0x00] then None else Some (decode_str v))"

section \<open>The outside world\<close>

text \<open>
  The operating system and the servers are an oracle the code consults in program order.
  \<^item> \<open>clock w k\<close> is what the \<open>k\<close>-th call of \<^verbatim>\<open>time.time()\<close> returns (a number of
    seconds; only sums and comparisons of times are taken).
  \<^item> \<open>rand_shuffle w k\<close> is the order the \<open>k\<close>-th call of \<^verbatim>\<open>random.shuffle\<close> leaves
    its list in.
  \<^item> \<open>connect_tape\<close>, \<open>send_tape\<close> and \<open>recv_tape\<close> hold the outcomes of the next calls
    that open and connect a socket, of \<^verbatim>\<open>sendall\<close> and of \<^verbatim>\<open>recv\<close>: a returned value or
    a \<^verbatim>\<open>socket.error\<close> with its \<^verbatim>\<open>args\<close>. Every socket has a timeout, so a call
    the tape has no outcome for ends as \<^verbatim>\<open>socket.timeout('timed out')\<close>.
  \<^item> \<open>trace\<close> records every call made on a socket, with the address of the connection.
\<close>

datatype 'a outcome = Returned 'a | SocketError "pyval list"

datatype action =
    Connect string
  | Close string
  | SendAll string string
  | Recv string

record world =
  clock :: "nat \<Rightarrow> time"
  ticks :: nat
  rand_shuffle :: "nat \<Rightarrow> nat list \<Rightarrow> nat list"
  rand_calls :: nat
  connect_tape :: "unit outcome list"
  send_tape :: "unit outcome list"
  recv_tape :: "string outcome list"
  trace :: "action list"

definition time_time :: "world \<Rightarrow> time \<times> world" where
  "time_time w = (clock w (ticks w), w\<lparr>ticks := Suc (ticks w)\<rparr>)"

fun pop_tape :: "'a outcome list \<Rightarrow> 'a outcome \<times> 'a outcome list" where
  "pop_tape [] = (SocketError [PStr ''timed out''], [])"
| "pop_tape (r # rest) = (r, rest)"

section \<open>One connection (\<^verbatim>\<open>sockets.Connection\<close>)\<close>

text \<open>
  A connection keeps its address, its socket (\<open>None\<close> while disconnected) and the time
  before which it is not retried (\<open>0\<close>: no such time). The timeout and the debug flag
  are fixed settings that only reach \<^verbatim>\<open>settimeout\<close> and \<^verbatim>\<open>print\<close>; they are left out,
  and so is the conversion between \<^verbatim>\<open>str\<close> and \<^verbatim>\<open>bytes\<close>, both byte strings here.
\<close>

datatype sock = Sock string

record connection =
  address :: string
  socket :: "sock option"
  retry_time :: time

definition RETRY_INTERVAL :: time where
  "RETRY_INTERVAL = 30"

definition disconnect :: "connection \<Rightarrow> world \<Rightarrow> connection \<times> world" where
  "disconnect c w =
     (case socket c of
        None \<Rightarrow> (c, w)
      | Some s \<Rightarrow> (c\<lparr>socket := None\<rparr>, w\<lparr>trace := trace w @ [Close (address c)]\<rparr>))"

text \<open>\<^verbatim>\<open>len(e.args) == 1 and e.args[0] or e.args[1]\<close>\<close>

fun exmsg :: "pyval list \<Rightarrow> exc + pyval" where
  "exmsg [] = Inl IndexError"
| "exmsg [a] = (if truthy a then Inr a else Inl IndexError)"
| "exmsg (a # b # rest) = Inr b"

text \<open>\<^verbatim>\<open>_die\<close> always raises: it returns the exception it raised.\<close>

definition die :: "pyval list \<Rightarrow> string \<Rightarrow> connection \<Rightarrow> world \<Rightarrow> exc \<times> connection \<times> world" where
  "die args msg c w =
     (case time_time w of (t, w1) \<Rightarrow>
      case disconnect (c\<lparr>retry_time := t + RETRY_INTERVAL\<rparr>) w1 of (c2, w2) \<Rightarrow>
        ((case exmsg args of
            Inl e \<Rightarrow> e
          | Inr m \<Rightarrow> ConnectionError (msg @ '': '' @ str_val m)), c2, w2))"

definition connect :: "connection \<Rightarrow> world \<Rightarrow> (exc + unit) \<times> connection \<times> world" where
  "connect c w =
     (if socket c \<noteq> None then (Inr (), c, w)
      else
        (case pop_tape (connect_tape w) of (r, rest) \<Rightarrow>
         let w1 = w\<lparr>connect_tape := rest, trace := trace w @ [Connect (address c)]\<rparr> in
         (case r of
            SocketError args \<Rightarrow>
              (case die args ''Connection error'' c w1 of (e, c', w') \<Rightarrow> (Inl e, c', w'))
          | Returned u \<Rightarrow> (Inr (), c\<lparr>socket := Some (Sock (address c))\<rparr>, w1))))"

text \<open>The \<^verbatim>\<open>and\<close> of \<^verbatim>\<open>is_ready\<close> reads the clock only when a retry time is set.\<close>

definition is_ready :: "connection \<Rightarrow> world \<Rightarrow> bool \<times> connection \<times> world" where
  "is_ready c w =
     (if retry_time c = 0 then (True, c\<lparr>retry_time := 0\<rparr>, w)
      else
        (case time_time w of (t, w1) \<Rightarrow>
           if retry_time c > t then (False, c, w1) else (True, c\<lparr>retry_time := 0\<rparr>, w1)))"

text \<open>
  The loop of \<^verbatim>\<open>readline\<close>, over the outcomes of \<^verbatim>\<open>recv\<close>: it ends with the line
  before the first LF of the buffer, with the zero-length receive, or with the
  \<^verbatim>\<open>socket.error\<close> of a receive. It returns the outcomes left and the number of
  receives made.
\<close>

datatype recv_end = Line string | Closed | Failed "pyval list"

fun recv_loop :: "string \<Rightarrow> string outcome list \<Rightarrow> recv_end \<times> string outcome list \<times> nat" where
  "recv_loop buffer [] =
     (if LF \<in> set buffer then (Line (takeWhile (\<lambda>c. c \<noteq> LF) buffer), [], 0)
      else (Failed [PStr ''timed out''], [], 1))"
| "recv_loop buffer (r # rest) =
     (if LF \<in> set buffer then (Line (takeWhile (\<lambda>c. c \<noteq> LF) buffer), r # rest, 0)
      else
        (case r of
           SocketError args \<Rightarrow> (Failed args, rest, 1)
         | Returned data \<Rightarrow>
             if data = [] then (Closed, rest, 1)
             else (case recv_loop (buffer @ data) rest of (e, tape, n) \<Rightarrow> (e, tape, Suc n))))"

definition readline :: "connection \<Rightarrow> world \<Rightarrow> (exc + string) \<times> connection \<times> world" where
  "readline c w =
     (case socket c of
        None \<Rightarrow> (Inl AttributeError, c, w)
      | Some s \<Rightarrow>
          (case recv_loop [] (recv_tape w) of (e, tape, n) \<Rightarrow>
           let w1 = w\<lparr>recv_tape := tape, trace := trace w @ replicate n (Recv (address c))\<rparr> in
           (case e of
              Line l \<Rightarrow> (Inr l, c, w1)
            | Closed \<Rightarrow>
                (Inl (RecoverableConnectionError ''Connection closed on the remote end.''), c, w1)
            | Failed args \<Rightarrow>
                (case die args ''Read error'' c w1 of (x, c', w') \<Rightarrow> (Inl x, c', w')))))"

definition send :: "string \<Rightarrow> connection \<Rightarrow> world \<Rightarrow> (exc + unit) \<times> connection \<times> world" where
  "send data c w =
     (case socket c of
        None \<Rightarrow> (Inl AttributeError, c, w)
      | Some s \<Rightarrow>
          (case pop_tape (send_tape w) of (r, rest) \<Rightarrow>
           let w1 = w\<lparr>send_tape := rest, trace := trace w @ [SendAll (address c) data]\<rparr> in
           (case r of
              SocketError args \<Rightarrow>
                (case die args ''Send error'' c w1 of (e, c', w') \<Rightarrow> (Inl e, c', w'))
            | Returned u \<Rightarrow> (Inr (), c, w1))))"

section \<open>The pool (\<^verbatim>\<open>sockets.HandlerSocket\<close>)\<close>

text \<open>
  The pool owns its connections; the index map refers to them, and two index ids may
  refer to the same one. So the connections are a store (a list), and a reference to a
  connection is its position in \<open>connections\<close>. Both dictionaries keep insertion order.
\<close>

record pool =
  connections :: "connection list"
  index_map :: "(int \<times> nat) list"
  current_index_id :: int
  index_cache :: "(string \<times> int) list"
  last_connection_exception :: "exc option"

definition RETRY_LIMIT :: nat where
  "RETRY_LIMIT = 5"

definition FIND_OPERATIONS :: "string list" where
  "FIND_OPERATIONS = [''='', ''>'', ''>='', ''<'', ''<='']"

definition MODIFY_OPERATIONS :: "string list" where
  "MODIFY_OPERATIONS = [''U'', ''D'', ''+'', ''-'', ''U?'', ''D?'', ''+?'', ''-?'']"

definition set_conn :: "nat \<Rightarrow> connection \<Rightarrow> pool \<Rightarrow> pool" where
  "set_conn conn c p = p\<lparr>connections := (connections p)[conn := c]\<rparr>"

subsection \<open>\<^verbatim>\<open>purge_index\<close>\<close>

text \<open>
  \<^verbatim>\<open>for key, value in self.index_cache.items()\<close> walks a view of the dictionary itself.
  Each step of a Python 3 dictionary iterator first compares the size of the dictionary
  with the size it had when the loop began, and raises \<^verbatim>\<open>RuntimeError\<close> when they
  differ; that holds for the step that would end the loop too. \<open>purge_loop\<close> takes the
  entries still to visit, the size at the start, the index id and the dictionary.
\<close>

fun purge_loop ::
  "(string \<times> int) list \<Rightarrow> nat \<Rightarrow> int \<Rightarrow> (string \<times> int) list \<Rightarrow> (exc + unit) \<times> (string \<times> int) list"
where
  "purge_loop [] used index_id cache =
     (if length cache \<noteq> used then (Inl RuntimeError, cache) else (Inr (), cache))"
| "purge_loop (e # pending) used index_id cache =
     (if length cache \<noteq> used then (Inl RuntimeError, cache)
      else purge_loop pending used index_id
             (if snd e = index_id then dict_del (fst e) cache else cache))"

definition purge_index :: "int \<Rightarrow> pool \<Rightarrow> (exc + unit) \<times> pool" where
  "purge_index index_id p =
     (case map_of (index_map p) index_id of
        None \<Rightarrow> (Inl KeyError, p)
      | Some conn \<Rightarrow>
          let p1 = p\<lparr>index_map := dict_del index_id (index_map p)\<rparr> in
          (case purge_loop (index_cache p1) (length (index_cache p1)) index_id (index_cache p1) of
             (r, cache) \<Rightarrow> (r, p1\<lparr>index_cache := cache\<rparr>)))"

subsection \<open>\<^verbatim>\<open>_get_connection\<close>\<close>

text \<open>The \<^verbatim>\<open>lambda\<close> of \<^verbatim>\<open>_get_connection\<close>; on \<^verbatim>\<open>None\<close> the read of \<^verbatim>\<open>exc.args\<close> raises.\<close>

definition exception :: "exc option \<Rightarrow> exc" where
  "exception exc =
     (case exc of
        None \<Rightarrow> AttributeError
      | Some e \<Rightarrow> ConnectionError (''Could not connect to any of given servers: '' @ message e))"

text \<open>\<^verbatim>\<open>if connections: conn = connections.pop()\<close> takes the last element.\<close>

definition next_conn :: "nat \<Rightarrow> nat list \<Rightarrow> nat \<times> nat list" where
  "next_conn conn cs = (if cs \<noteq> [] then (last cs, butlast cs) else (conn, cs))"

text \<open>
  The \<^verbatim>\<open>for\<close> loop with its \<^verbatim>\<open>else\<close>: the first argument is the number of rounds
  left, \<open>conn\<close> the connection tried next and \<open>cs\<close> the local list \<^verbatim>\<open>connections\<close>.
  \<open>Inr conn\<close> is the \<^verbatim>\<open>break\<close>.
\<close>

fun connect_loop ::
  "nat \<Rightarrow> nat \<Rightarrow> nat list \<Rightarrow> int option \<Rightarrow> bool \<Rightarrow> pool \<Rightarrow> world \<Rightarrow> (exc + nat) \<times> pool \<times> world"
where
  "connect_loop 0 conn cs index_id force_index p w =
     (Inl (exception (last_connection_exception p)), p, w)"
| "connect_loop (Suc i) conn cs index_id force_index p w =
     (case is_ready (connections p ! conn) w of (ready, c1, w1) \<Rightarrow>
      let p1 = set_conn conn c1 p in
      if ready then
        (case connect c1 w1 of (r, c2, w2) \<Rightarrow>
         let p2 = set_conn conn c2 p1 in
         (case r of
            Inr u \<Rightarrow> (Inr conn, p2, w2)
          | Inl e \<Rightarrow>
              if is_ConnectionError e then
                (let p3 = p2\<lparr>last_connection_exception := Some e\<rparr> in
                 if force_index then
                   (case index_id of
                      None \<Rightarrow> (Inl KeyError, p3, w2)
                    | Some iid \<Rightarrow>
                        (case purge_index iid p3 of
                           (Inl e', p4) \<Rightarrow> (Inl e', p4, w2)
                         | (Inr u, p4) \<Rightarrow>
                             if cs \<noteq> [] then
                               (Inl (RecoverableConnectionError
                                  (''Could not use connection with given index id '' @
                                   [QUOTE] @ str_int iid @ [QUOTE])), p4, w2)
                             else (Inl (exception (last_connection_exception p4)), p4, w2)))
                 else
                   (case next_conn conn cs of (conn', cs') \<Rightarrow>
                      connect_loop i conn' cs' index_id force_index p3 w2))
              else (Inl e, p2, w2)))
      else
        (case next_conn conn cs of (conn', cs') \<Rightarrow>
           connect_loop i conn' cs' index_id force_index p1 w1))"

text \<open>From the loop to the \<^verbatim>\<open>return\<close>: a found connection is bound to the index id.\<close>

definition try_connections ::
  "nat \<Rightarrow> nat list \<Rightarrow> int option \<Rightarrow> bool \<Rightarrow> pool \<Rightarrow> world \<Rightarrow> (exc + nat) \<times> pool \<times> world"
where
  "try_connections conn cs index_id force_index p w =
     (case connect_loop (max RETRY_LIMIT (length cs)) conn cs index_id force_index p w of
        (Inl e, p1, w1) \<Rightarrow> (Inl e, p1, w1)
      | (Inr conn', p1, w1) \<Rightarrow>
          (Inr conn',
           (case index_id of
              None \<Rightarrow> p1
            | Some iid \<Rightarrow> p1\<lparr>index_map := dict_set iid conn' (index_map p1)\<rparr>),
           w1))"

definition get_connection ::
  "int option \<Rightarrow> bool \<Rightarrow> pool \<Rightarrow> world \<Rightarrow> (exc + nat) \<times> pool \<times> world"
where
  "get_connection index_id force_index p w =
     (let cs = rand_shuffle w (rand_calls w) [0..<length (connections p)];
          w0 = w\<lparr>rand_calls := Suc (rand_calls w)\<rparr>
      in
      case (case index_id of None \<Rightarrow> None | Some iid \<Rightarrow> map_of (index_map p) iid) of
        Some conn \<Rightarrow> try_connections conn cs index_id force_index p w0
      | None \<Rightarrow>
          if force_index then
            (case index_id of
               None \<Rightarrow> (Inl TypeError, p, w0)
             | Some iid \<Rightarrow>
                 (Inl (OperationalError
                    (''There is no connection with given index id '' @
                     [QUOTE] @ str_int iid @ [QUOTE])), p, w0))
          else if cs = [] then (Inl IndexError, p, w0)
          else try_connections (last cs) (butlast cs) index_id force_index p w0)"

subsection \<open>\<^verbatim>\<open>_parse_response\<close>\<close>

text \<open>
  \<^verbatim>\<open>zip(*[decoded_tokens]*columns)\<close> draws every column of a row from the same iterator
  and stops at the first row it cannot complete; with no argument (\<open>columns \<le> 0\<close>) it
  yields nothing.
\<close>

fun zip_rows :: "nat \<Rightarrow> 'a list \<Rightarrow> 'a list list" where
  "zip_rows n xs =
     (if n = 0 \<or> length xs < n then [] else take n xs # zip_rows n (drop n xs))"

declare zip_rows.simps [simp del]

definition zip_star :: "int \<Rightarrow> 'a list \<Rightarrow> 'a list list" where
  "zip_star columns xs = (if columns \<le> 0 then [] else zip_rows (nat columns) xs)"

definition parse_response :: "string \<Rightarrow> exc + string option list list" where
  "parse_response raw_data =
     (let tokens = py_split TAB raw_data;
          failure = OperationalError (''HandlerSocket returned an error code: '' @
                      (if length tokens > 2 then tokens ! 2 else ''Unknown remote error''))
      in
      case tokens of
        [] \<Rightarrow> Inl failure
      | status # ts \<Rightarrow>
          (case py_int status of
             None \<Rightarrow> Inl (ValueError ''invalid literal for int()'')
           | Some st \<Rightarrow>
               if st \<noteq> 0 then Inl failure
               else
                 (case ts of
                    [] \<Rightarrow> Inl IndexError
                  | count # rest \<Rightarrow>
                      (case py_int count of
                         None \<Rightarrow> Inl (ValueError ''invalid literal for int()'')
                       | Some columns \<Rightarrow> Inr (zip_star columns (map decode rest))))))"

subsection \<open>\<^verbatim>\<open>_call\<close>, \<^verbatim>\<open>_open_index\<close>, \<^verbatim>\<open>get_index_id\<close>\<close>

text \<open>The body of the \<^verbatim>\<open>try\<close> of \<^verbatim>\<open>_call\<close>: send, read one line, parse it.\<close>

definition exchange ::
  "string \<Rightarrow> nat \<Rightarrow> pool \<Rightarrow> world \<Rightarrow> (exc + string option list list) \<times> pool \<times> world"
where
  "exchange data conn p w =
     (case send data (connections p ! conn) w of
        (Inl e, c1, w1) \<Rightarrow> (Inl e, set_conn conn c1 p, w1)
      | (Inr u, c1, w1) \<Rightarrow>
          (case readline c1 w1 of
             (Inl e, c2, w2) \<Rightarrow> (Inl e, set_conn conn c2 p, w2)
           | (Inr line, c2, w2) \<Rightarrow> (parse_response line, set_conn conn c2 p, w2)))"

definition call ::
  "int \<Rightarrow> string list \<Rightarrow> bool \<Rightarrow> pool \<Rightarrow> world \<Rightarrow> (exc + string option list list) \<times> pool \<times> world"
where
  "call index_id query force_index p w =
     (case get_connection (Some index_id) force_index p w of
        (Inl e, p1, w1) \<Rightarrow> (Inl e, p1, w1)
      | (Inr conn, p1, w1) \<Rightarrow>
          (case exchange (join [TAB] query @ [LF]) conn p1 w1 of
             (Inr response, p2, w2) \<Rightarrow> (Inr response, p2, w2)
           | (Inl e, p2, w2) \<Rightarrow>
               if is_ConnectionError e then
                 (case purge_index index_id p2 of
                    (Inl e', p3) \<Rightarrow> (Inl e', p3, w2)
                  | (Inr u, p3) \<Rightarrow> (Inl e, p3, w2))
               else (Inl e, p2, w2)))"

definition open_index ::
  "int \<Rightarrow> string \<Rightarrow> string \<Rightarrow> string \<Rightarrow> string \<Rightarrow> pool \<Rightarrow> world \<Rightarrow>
   (exc + string option list list) \<times> pool \<times> world"
where
  "open_index index_id db table flds index_name p w =
     call index_id
       ([''P'', str_int index_id] @ map encode [Some db, Some table, Some index_name, Some flds])
       False p w"

text \<open>
  The cache key of \<^verbatim>\<open>get_index_id\<close>, after \<^verbatim>\<open>index_name or 'PRIMARY'\<close>. The response of
  \<^verbatim>\<open>_open_index\<close> is a list whenever \<^verbatim>\<open>_call\<close> returns, so the final
  \<^verbatim>\<open>return None\<close> is never reached and a returned index id is \<open>Some\<close> id.
\<close>

definition index_name_or_primary :: "string option \<Rightarrow> string" where
  "index_name_or_primary index_name =
     (case index_name of None \<Rightarrow> ''PRIMARY'' | Some n \<Rightarrow> if n = [] then ''PRIMARY'' else n)"

definition cache_key :: "string \<Rightarrow> string \<Rightarrow> string list \<Rightarrow> string option \<Rightarrow> string" where
  "cache_key db table flds index_name =
     join '':'' [db, table, index_name_or_primary index_name, join '','' flds]"

definition get_index_id ::
  "string \<Rightarrow> string \<Rightarrow> string list \<Rightarrow> string option \<Rightarrow> pool \<Rightarrow> world \<Rightarrow>
   (exc + int option) \<times> pool \<times> world"
where
  "get_index_id db table flds index_name p w =
     (case map_of (index_cache p) (cache_key db table flds index_name) of
        Some index_id \<Rightarrow> (Inr (Some index_id), p, w)
      | None \<Rightarrow>
          (case open_index (current_index_id p) db table (join '','' flds)
                  (index_name_or_primary index_name) p w of
             (Inl e, p1, w1) \<Rightarrow> (Inl e, p1, w1)
           | (Inr response, p1, w1) \<Rightarrow>
               (Inr (Some (current_index_id p1)),
                p1\<lparr>index_cache :=
                      dict_set (cache_key db table flds index_name) (current_index_id p1)
                        (index_cache p1),
                    current_index_id := current_index_id p1 + 1\<rparr>,
                w1)))"

section \<open>The request builders (\<^verbatim>\<open>ReadSocket\<close>, \<^verbatim>\<open>WriteSocket\<close>)\<close>

text \<open>Column values are strings or \<^verbatim>\<open>None\<close>; \<open>columns\<close> is a list, so
  \<^verbatim>\<open>check_columns\<close> is the test of its length.\<close>

definition check_columns :: "'a list \<Rightarrow> bool" where
  "check_columns columns = (if length columns = 0 then False else True)"

definition find_op ::
  "int \<Rightarrow> string \<Rightarrow> string option list \<Rightarrow> int \<Rightarrow> int \<Rightarrow> pool \<Rightarrow> world \<Rightarrow>
   (exc + string option list list) \<times> pool \<times> world"
where
  "find_op index_id operation columns limit offset p w =
     (if operation \<notin> set FIND_OPERATIONS then
        (Inl (ValueError ''Operation is not supported.''), p, w)
      else if \<not> check_columns columns then
        (Inl (ValueError ''Columns must be a non-empty iterable.''), p, w)
      else
        call index_id
          ([str_int index_id, operation, str_int (int (length columns))] @
           map encode columns @
           [str_int limit, str_int offset])
          True p w)"

definition find_modify ::
  "int \<Rightarrow> string \<Rightarrow> string option list \<Rightarrow> string \<Rightarrow> string option list \<Rightarrow> int \<Rightarrow> int \<Rightarrow>
   pool \<Rightarrow> world \<Rightarrow> (exc + string option list list) \<times> pool \<times> world"
where
  "find_modify index_id operation columns modify_operation modify_columns limit offset p w =
     (if operation \<notin> set FIND_OPERATIONS \<or> modify_operation \<notin> set MODIFY_OPERATIONS then
        (Inl (ValueError ''Operation is not supported.''), p, w)
      else if \<not> check_columns columns then
        (Inl (ValueError ''Columns must be a non-empty iterable.''), p, w)
      else if modify_operation \<in> set [''U'', ''+'', ''-'', ''U?'', ''+?'', ''-?'']
              \<and> \<not> check_columns modify_columns then
        (Inl (ValueError ''Modify_columns must be a non-empty iterable for update operation''),
         p, w)
      else
        call index_id
          ([str_int index_id, operation, str_int (int (length columns))] @
           map encode columns @
           [str_int limit, str_int offset, modify_operation] @
           map encode modify_columns)
          True p w)"

definition insert_op ::
  "int \<Rightarrow> string option list \<Rightarrow> pool \<Rightarrow> world \<Rightarrow> (exc + bool) \<times> pool \<times> world"
where
  "insert_op index_id columns p w =
     (if \<not> check_columns columns then
        (Inl (ValueError ''Columns must be a non-empty iterable.''), p, w)
      else
        (case call index_id
                ([str_int index_id, ''+'', str_int (int (length columns))] @ map encode columns)
                True p w of
           (Inl e, p1, w1) \<Rightarrow> (Inl e, p1, w1)
         | (Inr response, p1, w1) \<Rightarrow> (Inr True, p1, w1)))"

section \<open>The retry decorator (\<^verbatim>\<open>utils.retry_on_failure\<close>)\<close>

text \<open>
  The wrapped function is any operation on a state. \<^verbatim>\<open>except RecoverableConnectionError\<close>
  catches that class only; what the second call raises leaves the handler as it is.
\<close>

definition retry_on_failure :: "('s \<Rightarrow> (exc + 'a) \<times> 's) \<Rightarrow> 's \<Rightarrow> (exc + 'a) \<times> 's" where
  "retry_on_failure func s =
     (case func s of
        (Inr result, s1) \<Rightarrow> (Inr result, s1)
      | (Inl e, s1) \<Rightarrow> if is_RecoverableConnectionError e then func s1 else (Inl e, s1))"

text \<open>\<open>counting\<close> adds to a function a count of its invocations.\<close>

definition counting :: "('s \<Rightarrow> 'r \<times> 's) \<Rightarrow> nat \<times> 's \<Rightarrow> 'r \<times> nat \<times> 's" where
  "counting func = (\<lambda>(n, s). case func s of (r, s1) \<Rightarrow> (r, Suc n, s1))"

section \<open>Example states\<close>

text \<open>
  Concrete pools and worlds for the evaluations below. In \<open>quiet\<close> the clock stands at
  100 seconds, \<^verbatim>\<open>random.shuffle\<close> leaves every list as it is and nothing is scripted for
  the sockets; \<open>answering line\<close> lets one connect and one send succeed and delivers
  \<open>line\<close> to the first receive.
\<close>

definition quiet :: world where
  "quiet =
     \<lparr>clock = (\<lambda>k. 100), ticks = 0, rand_shuffle = (\<lambda>k cs. cs), rand_calls = 0,
      connect_tape = [], send_tape = [], recv_tape = [], trace = []\<rparr>"

definition frame :: "string list \<Rightarrow> string" where
  "frame tokens = join [TAB] tokens @ [LF]"

definition answering :: "string \<Rightarrow> world" where
  "answering line =
     quiet\<lparr>connect_tape := [Returned ()], send_tape := [Returned ()],
           recv_tape := [Returned line]\<rparr>"

text \<open>One server, never used.\<close>

definition fresh_pool :: pool where
  "fresh_pool =
     \<lparr>connections = [\<lparr>address = ''A'', socket = None, retry_time = 0\<rparr>],
      index_map = [], current_index_id = 0, index_cache = [],
      last_connection_exception = None\<rparr>"

text \<open>One connected server on which index 0 was opened.\<close>

definition registered_pool :: pool where
  "registered_pool =
     \<lparr>connections = [\<lparr>address = ''A'', socket = Some (Sock ''A''), retry_time = 0\<rparr>],
      index_map = [(0, 0)], current_index_id = 1,
      index_cache = [(''db:t:PRIMARY:id'', 0)],
      last_connection_exception = None\<rparr>"

text \<open>
  One server whose connection died in a send or a receive at time 100: \<^verbatim>\<open>_die\<close> set
  the retry time, \<^verbatim>\<open>_call\<close> purged the index, and \<^verbatim>\<open>_get_connection\<close> has caught
  no exception yet.
\<close>

definition backing_off_pool :: pool where
  "backing_off_pool =
     \<lparr>connections = [\<lparr>address = ''A'', socket = None, retry_time = 130\<rparr>],
      index_map = [], current_index_id = 0, index_cache = [],
      last_connection_exception = None\<rparr>"

text \<open>
  Two servers. Indexes 0 and 1 were opened on \<open>A\<close>; a request on index 0 then failed
  in its send, which purged index 0 and set the retry time of \<open>A\<close>. Index 1 is still
  registered on \<open>A\<close>.
\<close>

definition shared_owner_pool :: pool where
  "shared_owner_pool =
     \<lparr>connections =
        [\<lparr>address = ''A'', socket = None, retry_time = 130\<rparr>,
         \<lparr>address = ''B'', socket = None, retry_time = 0\<rparr>],
      index_map = [(1, 0)], current_index_id = 2,
      index_cache = [(''db:t2:PRIMARY:id'', 1)],
      last_connection_exception = None\<rparr>"

text \<open>
  Two servers, never used, and a world in which \<^verbatim>\<open>random.shuffle\<close> reverses its list,
  \<open>A\<close> accepts a connect and two requests and fails in the third send.
\<close>

definition two_server_pool :: pool where
  "two_server_pool =
     \<lparr>connections =
        [\<lparr>address = ''A'', socket = None, retry_time = 0\<rparr>,
         \<lparr>address = ''B'', socket = None, retry_time = 0\<rparr>],
      index_map = [], current_index_id = 0, index_cache = [],
      last_connection_exception = None\<rparr>"

definition first_server_dies :: world where
  "first_server_dies =
     quiet\<lparr>rand_shuffle := (\<lambda>k cs. rev cs),
           connect_tape := [Returned ()],
           send_tape := [Returned (), Returned (), SocketError [PInt 32, PStr ''Broken pipe'']],
           recv_tape := [Returned (frame [''0'', ''1'']), Returned (frame [''0'', ''1''])]\<rparr>"

definition live_connection :: connection where
  "live_connection = \<lparr>address = ''A'', socket = Some (Sock ''A''), retry_time = 0\<rparr>"

section \<open>Theorems\<close>

subsection \<open>Codec round trip\<close>

lemma low_cases:
  "n \<le> 15 \<Longrightarrow> n \<in> {0, 1, 2, 3, 4, 5, 6, 7, 8, 9, 10, 11, 12, 13, 14, 15::nat}"
  by simp arith

lemma low_or: "n \<le> 15 \<Longrightarrow> or n (64::nat) = n + 64"
  by (auto dest!: low_cases)

lemma low_xor: "n \<le> 15 \<Longrightarrow> xor (n + 64) (64::nat) = n"
  by (auto dest!: low_cases)

lemma py_ord_chr: "n < 256 \<Longrightarrow> py_ord (py_chr n) = n"
  by (simp add: py_ord_def py_chr_def)

lemma py_chr_ord: "py_chr (py_ord c) = c"
  by (simp add: py_ord_def py_chr_def)

lemma py_ord_one: "py_ord (CHR 0x01) = 1"
  by (simp add: py_ord_def)

lemma decode_encode_str: "decode_str (encode_str v) = v"
proof (induction v)
  case Nil
  show ?case by simp
next
  case (Cons c cs)
  show ?case
  proof (cases "py_ord c \<le> 0x0f")
    case True
    then have o: "or (py_ord c) 64 = py_ord c + 64" and x: "xor (py_ord c + 64) 64 = py_ord c"
      by (simp_all add: low_or low_xor)
    from True have r: "py_ord (py_chr (py_ord c + 64)) = py_ord c + 64"
      by (simp add: py_ord_chr)
    from True o x r Cons.IH show ?thesis
      by (simp add: py_chr_ord)
  next
    case False
    then have "c \<noteq> CHR 0x01"
      by (auto simp: py_ord_one)
    with False Cons.IH show ?thesis by simp
  qed
qed

lemma encode_str_not_nul: "encode_str v \<noteq> [CHR 0x00]"
proof (cases v)
  case Nil
  then show ?thesis by simp
next
  case (Cons c cs)
  show ?thesis
  proof (cases "py_ord c \<le> 0x0f")
    case True
    with Cons show ?thesis by simp
  next
    case False
    then have "c \<noteq> CHR 0x00" by (auto simp: py_ord_def)
    with False Cons show ?thesis by simp
  qed
qed

text \<open>
  C3. Decoding an encoded value gives the value back, for the absent value \<open>None\<close> and
  for every byte string: the empty one, and those holding bytes of \<open>[0x00, 0x0f]\<close>
  (the escape lead \<open>0x01\<close> and the byte \<open>0x00\<close> among them).
\<close>

theorem decode_encode: "decode (encode v) = v"
  by (cases v) (simp_all add: decode_def decode_encode_str encode_str_not_nul)

subsection \<open>Affinity\<close>

text \<open>
  C1. A find, modify or insert on a registered index id should reach the connection that
  opened the index and no other. The evaluation, first conjunct: on two fresh servers the
  client opens indexes 0 and 1, both on \<open>A\<close>, and a find on index 0 fails in its send;
  that leaves \<open>shared_owner_pool\<close>, where index 1 is registered on \<open>A\<close> and \<open>A\<close> waits
  for its retry time. Then a find on index 1: \<^verbatim>\<open>is_ready\<close> is false without an
  exception, so the handler that honours \<^verbatim>\<open>force_index\<close> is not entered, the loop pops
  \<open>B\<close> and connects it, the request is sent to \<open>B\<close>, and the registration is rewritten
  to \<open>B\<close>.
\<close>

theorem find_rerouted_to_other_member:
  "(case get_index_id ''db'' ''t1'' [''id''] None two_server_pool first_server_dies of
      (r1, p1, w1) \<Rightarrow>
        (case get_index_id ''db'' ''t2'' [''id''] None p1 w1 of
           (r2, p2, w2) \<Rightarrow>
             (case find_op 0 ''='' [Some ''k''] 0 0 p2 w2 of
                (r3, p3, w3) \<Rightarrow>
                  r1 = Inr (Some 0) \<and> r2 = Inr (Some 1) \<and> p3 = shared_owner_pool)))
   \<and> map_of (index_map shared_owner_pool) 1 = Some 0
   \<and> (case find_op 1 ''='' [Some ''k''] 0 0 shared_owner_pool
              (answering (frame [''0'', ''1'', ''v''])) of
        (r, p, w) \<Rightarrow>
          r = Inr [[Some ''v'']]
          \<and> trace w =
              [Connect ''B'',
               SendAll ''B'' (frame [''1'', ''='', ''1'', ''k'', ''0'', ''0'']),
               Recv ''B'']
          \<and> map_of (index_map p) 1 = Some 1)"
  by code_simp

subsection \<open>Opening an index\<close>

text \<open>
  C2. A failed open should leave no partial registration. The evaluation: on a cache
  miss \<^verbatim>\<open>_get_connection\<close> binds the new id to the connection before the request is
  sent. When the send fails, the handler of \<^verbatim>\<open>_call\<close> purges the binding (second
  conjunct); when the server answers with an error code, \<^verbatim>\<open>OperationalError\<close> passes
  that handler and the id stays in the index map with no key in the cache (first
  conjunct). The counter is unchanged in both.
\<close>

theorem failed_open_stays_registered:
  "(case get_index_id ''db'' ''t'' [''id''] None fresh_pool
            (answering (frame [''1'', ''1'', ''open_table''])) of
      (r, p, w) \<Rightarrow>
        r = Inl (OperationalError ''HandlerSocket returned an error code: open_table'')
        \<and> current_index_id p = 0
        \<and> index_cache p = []
        \<and> index_map p = [(0, 0)])
   \<and> (case get_index_id ''db'' ''t'' [''id''] None fresh_pool
            (quiet\<lparr>connect_tape := [Returned ()],
                   send_tape := [SocketError [PInt 32, PStr ''Broken pipe'']]\<rparr>) of
      (r, p, w) \<Rightarrow>
        r = Inl (ConnectionError ''Send error: Broken pipe'')
        \<and> current_index_id p = 0
        \<and> index_cache p = []
        \<and> index_map p = [])"
  by code_simp

subsection \<open>Purging one index\<close>

text \<open>
  C4. \<^verbatim>\<open>purge_index\<close> of a registered id should return normally with the id gone from
  both dictionaries. The evaluation: \<open>registered_pool\<close> is the pool after one successful
  \<^verbatim>\<open>get_index_id\<close> (first conjunct). Its id 0 has a key in the cache; the loop deletes
  that key while it walks the dictionary, and the next step of the iterator raises
  \<^verbatim>\<open>RuntimeError\<close>. Both entries are gone, but the call does not return.
\<close>

theorem purge_index_raises:
  "fst (snd (get_index_id ''db'' ''t'' [''id''] None fresh_pool (answering (frame [''0'', ''1'']))))
     = registered_pool
   \<and> purge_index 0 registered_pool =
       (Inl RuntimeError, registered_pool\<lparr>index_map := [], index_cache := []\<rparr>)"
  by code_simp

subsection \<open>The zero-length receive\<close>

text \<open>
  C5. After a zero-length receive the connection should be left without a socket. The
  evaluation: \<^verbatim>\<open>RecoverableConnectionError\<close> is raised inside the \<^verbatim>\<open>try\<close> whose handler
  catches \<^verbatim>\<open>socket.error\<close> only, so \<^verbatim>\<open>_die\<close> does not run: the socket is still set, no
  retry time is set, and a later \<^verbatim>\<open>connect\<close> returns at once without a new socket.
\<close>

theorem readline_keeps_dead_socket:
  "(case readline live_connection (quiet\<lparr>recv_tape := [Returned []]\<rparr>) of
      (r, c, w) \<Rightarrow>
        r = Inl (RecoverableConnectionError ''Connection closed on the remote end.'')
        \<and> socket c = Some (Sock ''A'')
        \<and> retry_time c = 0
        \<and> trace w = [Recv ''A'']
        \<and> connect c w = (Inr (), c, w))"
  by (simp add: readline_def live_connection_def quiet_def connect_def)

subsection \<open>Parsing a response\<close>







subsection \<open>Exhausting the pool\<close>

text \<open>
  C7. When no candidate can be used, \<^verbatim>\<open>_get_connection\<close> should raise the terminal
  \<^verbatim>\<open>ConnectionError\<close>, also when every round skipped its candidate and no cause
  was caught. The evaluation: \<open>backing_off_pool\<close> is the pool after an open whose send
  failed (first conjunct). There the only connection is not ready in each of the five
  rounds, \<^verbatim>\<open>last_connection_exception\<close> is \<^verbatim>\<open>None\<close>, and reading its \<^verbatim>\<open>args\<close> raises
  \<^verbatim>\<open>AttributeError\<close> (second conjunct). When a connect was refused in the same call, the
  cause is there and the terminal \<^verbatim>\<open>ConnectionError\<close> wraps it (third conjunct).
\<close>

theorem get_connection_without_cause:
  "(case get_index_id ''db'' ''t'' [''id''] None fresh_pool
           (quiet\<lparr>connect_tape := [Returned ()],
                  send_tape := [SocketError [PInt 32, PStr ''Broken pipe'']]\<rparr>) of
      (r, p, w) \<Rightarrow> r = Inl (ConnectionError ''Send error: Broken pipe'') \<and> p = backing_off_pool)
   \<and> get_connection None False backing_off_pool quiet =
       (Inl AttributeError, backing_off_pool, quiet\<lparr>ticks := 5, rand_calls := 1\<rparr>)
   \<and> fst (get_connection None False fresh_pool
            (quiet\<lparr>connect_tape := [SocketError [PInt 111, PStr ''Connection refused'']]\<rparr>))
       = Inl (ConnectionError
           ''Could not connect to any of given servers: Connection error: Connection refused'')"
proof -
  have reached:
    "(case get_index_id ''db'' ''t'' [''id''] None fresh_pool
           (quiet\<lparr>connect_tape := [Returned ()],
                  send_tape := [SocketError [PInt 32, PStr ''Broken pipe'']]\<rparr>) of
      (r, p, w) \<Rightarrow> r = Inl (ConnectionError ''Send error: Broken pipe'') \<and> p = backing_off_pool)"
    by code_simp
  have skipped: "get_connection None False backing_off_pool quiet =
      (Inl AttributeError, backing_off_pool, quiet\<lparr>ticks := 5, rand_calls := 1\<rparr>)"
    by (simp add: get_connection_def backing_off_pool_def quiet_def try_connections_def
          RETRY_LIMIT_def is_ready_def time_time_def next_conn_def set_conn_def exception_def
          numeral_eq_Suc)
  have refused: "fst (get_connection None False fresh_pool
            (quiet\<lparr>connect_tape := [SocketError [PInt 111, PStr ''Connection refused'']]\<rparr>))
       = Inl (ConnectionError
           ''Could not connect to any of given servers: Connection error: Connection refused'')"
    by code_simp
  from reached skipped refused show ?thesis by (intro conjI)
qed

subsection \<open>The retry decorator\<close>

text \<open>
  C8. The wrapper invokes the operation once. When that invocation raises
  \<^verbatim>\<open>RecoverableConnectionError\<close> it invokes the operation once more, from the state the
  first invocation left, and the outcome of the second invocation, a result or any
  exception, is the outcome of the wrapper. A result, and every other exception of the
  first invocation, is passed on as it is after that single invocation. The second
  component counts the invocations.
\<close>

theorem retry_on_failure_once:
  "retry_on_failure (counting func) (0, s) =
     (case func s of
        (Inr result, s1) \<Rightarrow> (Inr result, 1, s1)
      | (Inl e, s1) \<Rightarrow>
          if is_RecoverableConnectionError e
          then (case func s1 of (r, s2) \<Rightarrow> (r, 2, s2))
          else (Inl e, 1, s1))"
  by (simp add: retry_on_failure_def counting_def split: prod.splits sum.splits)

subsection \<open>Validation in \<^verbatim>\<open>find_modify\<close>\<close>

text \<open>
  C9. \<^verbatim>\<open>find_modify\<close> raises \<^verbatim>\<open>ValueError\<close> and leaves the pool and the world as they
  were (no socket call is made, no scripted outcome is consumed) whenever the comparison
  operator is none of \<open>=\<close>, \<open>>\<close>, \<open>>=\<close>, \<open><\<close>, \<open><=\<close>, or the modify operator is none of
  \<open>U\<close>, \<open>D\<close>, \<open>+\<close>, \<open>-\<close> with an optional \<open>?\<close>, or the column list is empty, or the
  modify operator is an update, increment or decrement and the list of modify values is
  empty.
\<close>

theorem find_modify_validation:
  assumes "operation \<notin> {''='', ''>'', ''>='', ''<'', ''<=''}
         \<or> modify_operation \<notin> (\<lambda>(b, s). b @ s) ` ({''U'', ''D'', ''+'', ''-''} \<times> {'''', ''?''})
         \<or> columns = []
         \<or> (modify_operation \<in> (\<lambda>(b, s). b @ s) ` ({''U'', ''+'', ''-''} \<times> {'''', ''?''})
              \<and> modify_columns = [])"
  shows "\<exists>msg. find_modify index_id operation columns modify_operation modify_columns limit offset p w
           = (Inl (ValueError msg), p, w)"
  using assms
  by (auto simp add: find_modify_def FIND_OPERATIONS_def MODIFY_OPERATIONS_def check_columns_def)

theorem find_modify_validation_witness:
  "''+?'' \<in> (\<lambda>(b, s). b @ s) ` ({''U'', ''+'', ''-''} \<times> {'''', ''?''})
   \<and> (\<exists>msg. find_modify 0 ''='' [Some ''1''] ''+?'' [] 0 0 registered_pool
               (answering (frame [''0'', ''1'', ''1'']))
             = (Inl (ValueError msg), registered_pool, answering (frame [''0'', ''1'', ''1''])))"
proof -
  have m: "''+?'' \<in> (\<lambda>(b, s). b @ s) ` ({''U'', ''+'', ''-''} \<times> {'''', ''?''})"
    by (simp add: image_iff)
  then have "''='' \<notin> {''='', ''>'', ''>='', ''<'', ''<=''}
         \<or> ''+?'' \<notin> (\<lambda>(b, s). b @ s) ` ({''U'', ''D'', ''+'', ''-''} \<times> {'''', ''?''})
         \<or> [Some ''1''] = []
         \<or> (''+?'' \<in> (\<lambda>(b, s). b @ s) ` ({''U'', ''+'', ''-''} \<times> {'''', ''?''})
              \<and> ([] :: string option list) = [])"
    by simp
  from find_modify_validation [OF this] m show ?thesis
    by blast
qed

subsection \<open>Colliding cache keys\<close>

lemma map_of_dict_set: "map_of (dict_set k v d) k = Some v"
  by (induction d) auto

lemma get_index_id_cached:
  assumes "get_index_id db table flds index_name p w = (Inr (Some i), p1, w1)"
  shows "map_of (index_cache p1) (cache_key db table flds index_name) = Some i"
  using assms
  by (auto simp add: get_index_id_def map_of_dict_set split: option.splits prod.splits sum.splits)

lemma get_index_id_hit:
  assumes "map_of (index_cache p) (cache_key db table flds index_name) = Some i"
  shows "get_index_id db table flds index_name p w = (Inr (Some i), p, w)"
  using assms by (simp add: get_index_id_def)

text \<open>
  C10. The cache key joins the fields with \<open>,\<close> and the four parts with \<open>:\<close>, so
  different inputs have the same key: the one field \<open>a,b\<close> and the two fields \<open>a\<close>,
  \<open>b\<close>; a colon moved from the database name to the table name. Once
  \<^verbatim>\<open>get_index_id\<close> has returned an id for the first input, it returns the same id for
  the second one, from the cache, without opening an index.
\<close>

theorem cache_key_collision:
  "[''a,b''] \<noteq> [''a'', ''b'']
   \<and> cache_key db table [''a,b''] index_name = cache_key db table [''a'', ''b''] index_name
   \<and> cache_key ''a:b'' ''c'' flds index_name = cache_key ''a'' ''b:c'' flds index_name
   \<and> (\<forall>p w i p1 w1 w2.
         get_index_id db table [''a,b''] index_name p w = (Inr (Some i), p1, w1)
         \<longrightarrow> get_index_id db table [''a'', ''b''] index_name p1 w2 = (Inr (Some i), p1, w2))"
proof -
  have k: "cache_key db table [''a,b''] index_name = cache_key db table [''a'', ''b''] index_name"
    by (simp add: cache_key_def)
  have c: "cache_key ''a:b'' ''c'' flds index_name = cache_key ''a'' ''b:c'' flds index_name"
    by (simp add: cache_key_def)
  have g: "get_index_id db table [''a'', ''b''] index_name p1 w2 = (Inr (Some i), p1, w2)"
    if "get_index_id db table [''a,b''] index_name p w = (Inr (Some i), p1, w1)"
    for p w i p1 w1 w2
    using get_index_id_cached [OF that] k by (simp add: get_index_id_hit)
  from k c g show ?thesis by blast
qed

theorem cache_key_collision_witness:
  "fst (get_index_id ''db'' ''t'' [''a,b''] None fresh_pool (answering (frame [''0'', ''1''])))
     = Inr (Some 0)
   \<and> fst (get_index_id ''db'' ''t'' [''a'', ''b''] None
            (fst (snd (get_index_id ''db'' ''t'' [''a,b''] None fresh_pool
                         (answering (frame [''0'', ''1''])))))
            quiet)
     = Inr (Some 0)"
proof -
  obtain p1 w1 where
    e: "get_index_id ''db'' ''t'' [''a,b''] None fresh_pool (answering (frame [''0'', ''1'']))
          = (fst (get_index_id ''db'' ''t'' [''a,b''] None fresh_pool
                    (answering (frame [''0'', ''1'']))), p1, w1)"
    by (metis prod.collapse)
  have r: "fst (get_index_id ''db'' ''t'' [''a,b''] None fresh_pool
                  (answering (frame [''0'', ''1''])))
             = Inr (Some 0)"
    by code_simp
  from e r have
    "get_index_id ''db'' ''t'' [''a,b''] None fresh_pool (answering (frame [''0'', ''1'']))
       = (Inr (Some 0), p1, w1)"
    by simp
  with cache_key_collision [of "''db''" "''t''" None] have
    "get_index_id ''db'' ''t'' [''a'', ''b''] None p1 quiet = (Inr (Some 0), p1, quiet)"
    by blast
  with e r show ?thesis
    by simp
qed

end
